theory Spec2Isabelle
  imports Complex_Main
begin

section \<open>Numbers and the vector library\<close>

text \<open>
  The game in \<^verbatim>\<open>src/app/page.tsx\<close> computes with JavaScript numbers. They are
  modelled as \<^typ>\<open>real\<close>: \<^verbatim>\<open>Math.sin\<close>, \<^verbatim>\<open>Math.cos\<close>, \<^verbatim>\<open>Math.sqrt\<close> and
  \<^verbatim>\<open>Math.PI\<close> are \<^term>\<open>sin\<close>, \<^term>\<open>cos\<close>, \<^term>\<open>sqrt\<close> and \<^term>\<open>pi\<close>, and no
  rounding happens. The two places where the source can produce a value that is
  not a number (an array read out of range, a division by zero) are written out
  with \<^typ>\<open>'a option\<close>.

  The vectors are those of the three.js library the file imports. Only the
  methods the animation loop calls are given, each following the library's
  definition.
\<close>

record Vector3 =
  vx :: real
  vy :: real
  vz :: real

record Vector2 =
  ux :: real
  uy :: real

record Euler =
  ex :: real
  ey :: real
  ez :: real

record Quaternion =
  qx :: real
  qy :: real
  qz :: real
  qw :: real

text \<open>\<^verbatim>\<open>{ x, z }\<close>, the object literal pushed by \<^verbatim>\<open>generateRandomTrack\<close>.\<close>

record TrackPoint =
  px :: real
  pz :: real

definition length3 :: "Vector3 \<Rightarrow> real" where
  "length3 v = sqrt (vx v * vx v + vy v * vy v + vz v * vz v)"

definition add3 :: "Vector3 \<Rightarrow> Vector3 \<Rightarrow> Vector3" where
  "add3 v w = \<lparr>vx = vx v + vx w, vy = vy v + vy w, vz = vz v + vz w\<rparr>"

definition multiplyScalar3 :: "Vector3 \<Rightarrow> real \<Rightarrow> Vector3" where
  "multiplyScalar3 v k = \<lparr>vx = vx v * k, vy = vy v * k, vz = vz v * k\<rparr>"

definition divideScalar3 :: "Vector3 \<Rightarrow> real \<Rightarrow> Vector3" where
  "divideScalar3 v k = multiplyScalar3 v (1 / k)"

text \<open>\<^verbatim>\<open>normalize() { return this.divideScalar(this.length() || 1) }\<close>\<close>

definition normalize3 :: "Vector3 \<Rightarrow> Vector3" where
  "normalize3 v = divideScalar3 v (if length3 v = 0 then 1 else length3 v)"

definition length2 :: "Vector2 \<Rightarrow> real" where
  "length2 v = sqrt (ux v * ux v + uy v * uy v)"

definition normalize2 :: "Vector2 \<Rightarrow> Vector2" where
  "normalize2 v =
     (let k = 1 / (if length2 v = 0 then 1 else length2 v)
      in \<lparr>ux = ux v * k, uy = uy v * k\<rparr>)"

text \<open>
  An object's \<^verbatim>\<open>quaternion\<close> is kept equal to its \<^verbatim>\<open>rotation\<close> by the library
  (\<^verbatim>\<open>Quaternion.setFromEuler\<close>, Euler order XYZ).
\<close>

definition setFromEuler :: "Euler \<Rightarrow> Quaternion" where
  "setFromEuler e =
     (let c1 = cos (ex e / 2); c2 = cos (ey e / 2); c3 = cos (ez e / 2);
          s1 = sin (ex e / 2); s2 = sin (ey e / 2); s3 = sin (ez e / 2)
      in \<lparr>qx = s1 * c2 * c3 + c1 * s2 * s3,
          qy = c1 * s2 * c3 - s1 * c2 * s3,
          qz = c1 * c2 * s3 + s1 * s2 * c3,
          qw = c1 * c2 * c3 - s1 * s2 * s3\<rparr>)"

text \<open>\<^verbatim>\<open>Vector3.applyQuaternion\<close>: \<open>v + w t + q \<times> t\<close> with \<open>t = 2 (q \<times> v)\<close>.\<close>

definition applyQuaternion3 :: "Vector3 \<Rightarrow> Quaternion \<Rightarrow> Vector3" where
  "applyQuaternion3 v q =
     (let tx = 2 * (qy q * vz v - qz q * vy v);
          ty = 2 * (qz q * vx v - qx q * vz v);
          tz = 2 * (qx q * vy v - qy q * vx v)
      in \<lparr>vx = vx v + qw q * tx + qy q * tz - qz q * ty,
          vy = vy v + qw q * ty + qz q * tx - qx q * tz,
          vz = vz v + qw q * tz + qx q * ty - qy q * tx\<rparr>)"

section \<open>Track generation\<close>

text \<open>
  \<^verbatim>\<open>generateRandomTrack\<close> (lines 76-92). The loop
  \<^verbatim>\<open>for (let i = 0; i < numPoints; i++) trackPoints.push(...)\<close> builds the list of
  the points for \<open>i = 0, ..., numPoints - 1\<close> in order.
\<close>

definition numPoints :: nat where
  "numPoints = 32"

definition baseRadius :: real where
  "baseRadius = 180"

definition trackPointAt :: "nat \<Rightarrow> TrackPoint" where
  "trackPointAt i =
     (let angle = (real i / real numPoints) * pi * 2;
          radiusVariation = baseRadius + sin (angle * 2) * 15 + cos (angle * 4) * 8
      in \<lparr>px = cos angle * radiusVariation, pz = sin angle * radiusVariation\<rparr>)"

definition generateRandomTrack :: "TrackPoint list" where
  "generateRandomTrack = map trackPointAt [0..<numPoints]"

text \<open>
  The boundary loop of the scene set-up (lines 154-173), for any list of track
  points. \<^verbatim>\<open>(i - 1 + trackPoints.length) % trackPoints.length\<close> is computed on
  integers, as the source does.
\<close>

definition trackWidth :: real where
  "trackWidth = 60"

definition perpendicularAt :: "TrackPoint list \<Rightarrow> nat \<Rightarrow> Vector2" where
  "perpendicularAt trackPoints i =
     (let n = length trackPoints;
          nextPoint = trackPoints ! ((i + 1) mod n);
          prevPoint = trackPoints ! nat ((int i - 1 + int n) mod int n);
          direction = normalize2 \<lparr>ux = px nextPoint - px prevPoint,
                                  uy = pz nextPoint - pz prevPoint\<rparr>
      in \<lparr>ux = - uy direction, uy = ux direction\<rparr>)"

definition outerPointAt :: "TrackPoint list \<Rightarrow> nat \<Rightarrow> TrackPoint" where
  "outerPointAt trackPoints i =
     (let point = trackPoints ! i;
          perpendicular = perpendicularAt trackPoints i
      in \<lparr>px = px point + ux perpendicular * (trackWidth / 2),
          pz = pz point + uy perpendicular * (trackWidth / 2)\<rparr>)"

definition innerPointAt :: "TrackPoint list \<Rightarrow> nat \<Rightarrow> TrackPoint" where
  "innerPointAt trackPoints i =
     (let point = trackPoints ! i;
          perpendicular = perpendicularAt trackPoints i
      in \<lparr>px = px point - ux perpendicular * (trackWidth / 2),
          pz = pz point - uy perpendicular * (trackWidth / 2)\<rparr>)"

definition outerPoints :: "TrackPoint list \<Rightarrow> TrackPoint list" where
  "outerPoints trackPoints = map (outerPointAt trackPoints) [0..<length trackPoints]"

definition innerPoints :: "TrackPoint list \<Rightarrow> TrackPoint list" where
  "innerPoints trackPoints = map (innerPointAt trackPoints) [0..<length trackPoints]"

text \<open>The Euclidean distance between two planar points.\<close>

definition distance :: "TrackPoint \<Rightarrow> TrackPoint \<Rightarrow> real" where
  "distance p q = sqrt ((px p - px q) * (px p - px q) + (pz p - pz q) * (pz p - pz q))"

definition origin :: TrackPoint where
  "origin = \<lparr>px = 0, pz = 0\<rparr>"

section \<open>The keyboard\<close>

text \<open>
  \<^verbatim>\<open>const keys: { [key: string]: boolean } = {}\<close> (line 323). A key that was
  never pressed reads \<^verbatim>\<open>undefined\<close>, which is falsy: \<open>held\<close> is the truth value
  of \<^verbatim>\<open>keys[k]\<close> in a condition.
\<close>

type_synonym Keys = "string \<rightharpoonup> bool"

definition held :: "Keys \<Rightarrow> string \<Rightarrow> bool" where
  "held keys k = (keys k = Some True)"

text \<open>\<^verbatim>\<open>String.prototype.toLowerCase\<close> on the ASCII key codes of a keyboard event.\<close>

definition lowerChar :: "char \<Rightarrow> char" where
  "lowerChar c =
     (case map_of (zip ''ABCDEFGHIJKLMNOPQRSTUVWXYZ'' ''abcdefghijklmnopqrstuvwxyz'') c of
        Some d \<Rightarrow> d
      | None \<Rightarrow> c)"

definition toLowerCase :: "string \<Rightarrow> string" where
  "toLowerCase cs = map lowerChar cs"

text \<open>Lines 362-371 of \<^verbatim>\<open>animate\<close>: the controls read for one frame.\<close>

definition readAcceleration :: "Keys \<Rightarrow> real" where
  "readAcceleration keys =
     (let a0 = 0;
          a1 = (if held keys ''keyw'' \<or> held keys ''arrowup'' then 1 else a0);
          a2 = (if held keys ''keys'' \<or> held keys ''arrowdown'' then - 0.5 else a1);
          a3 = (if held keys ''shiftleft'' \<or> held keys ''shiftright'' then a2 * 1.5 else a2)
      in a3)"

definition readSteering :: "Keys \<Rightarrow> real" where
  "readSteering keys =
     (let s0 = 0;
          s1 = (if held keys ''keya'' \<or> held keys ''arrowleft'' then 1 else s0);
          s2 = (if held keys ''keyd'' \<or> held keys ''arrowright'' then - 1 else s1)
      in s2)"

section \<open>The vehicle\<close>

datatype CameraMode = TPP | FPP

text \<open>
  The variables of the effect closure (lines 301-321) that \<^verbatim>\<open>animate\<close> and
  \<^verbatim>\<open>handleKeyUp\<close> read and write. \<open>position\<close> and \<open>rotation\<close> are those of
  \<^verbatim>\<open>currentCarRef\<close>; replacing the car model copies both to the new object, so
  they are the same two values before and after. \<open>rpm\<close> is \<open>None\<close> when
  the source computes a value that is not a finite number.
\<close>

record Vehicle =
  position :: Vector3
  rotation :: Euler
  velocity :: Vector3
  lateralVelocity :: Vector3
  acceleration :: real
  steering :: real
  speed :: real
  gear :: nat
  rpm :: "real option"
  isHandbraking :: bool
  currentCameraMode :: CameraMode
  driftFactor :: real
  handbrakeIntensity :: real

definition maxSpeedByGear :: "real list" where
  "maxSpeedByGear = [0, 60, 100, 150, 200, 280, 350]"

text \<open>An array read; out of range it is \<^verbatim>\<open>undefined\<close>.\<close>

definition arrayGet :: "'a list \<Rightarrow> nat \<Rightarrow> 'a option" where
  "arrayGet xs i = (if i < length xs then Some (xs ! i) else None)"

text \<open>
  \<^verbatim>\<open>a > b\<close> and \<^verbatim>\<open>a < b\<close> where \<open>b\<close> may be \<^verbatim>\<open>undefined\<close> (or a multiple
  of it, which is NaN): both comparisons are then false.
\<close>

definition gtNumber :: "real \<Rightarrow> real option \<Rightarrow> bool" where
  "gtNumber a b = (case b of None \<Rightarrow> False | Some c \<Rightarrow> a > c)"

definition ltNumber :: "real \<Rightarrow> real option \<Rightarrow> bool" where
  "ltNumber a b = (case b of None \<Rightarrow> False | Some c \<Rightarrow> a < c)"

text \<open>Line 386.\<close>

definition engineForce :: "real \<Rightarrow> nat \<Rightarrow> real" where
  "engineForce acc g = acc * (30 + real g * 10)"

text \<open>Lines 377-381.\<close>

definition smoothHandbrake :: "bool \<Rightarrow> real \<Rightarrow> real \<Rightarrow> real" where
  "smoothHandbrake handbraking deltaTime h =
     (if handbraking then min (h + deltaTime * 3) 1 else max (h - deltaTime * 4) 0)"

text \<open>Lines 391-399: the engine force along the car's forward axis, then drag.\<close>

definition forceAndDrag :: "real \<Rightarrow> real \<Rightarrow> Quaternion \<Rightarrow> real \<Rightarrow> Vector3 \<Rightarrow> Vector3" where
  "forceAndDrag acc force q deltaTime v =
     (let forwardDirection = applyQuaternion3 \<lparr>vx = 0, vy = 0, vz = 1\<rparr> q;
          forceVector = multiplyScalar3 forwardDirection (force * deltaTime);
          v1 = (if acc \<noteq> 0 then add3 v forceVector else v)
      in multiplyScalar3 v1 0.98)"

text \<open>Lines 401-403.\<close>

definition capSpeed :: "real option \<Rightarrow> Vector3 \<Rightarrow> Vector3" where
  "capSpeed currentMaxSpeed v =
     (case currentMaxSpeed of
        None \<Rightarrow> v
      | Some c \<Rightarrow> if length3 v > c then multiplyScalar3 (normalize3 v) c else v)"

text \<open>
  Lines 405-424: steering and drift. The result is the car's rotation, the
  variable \<open>driftFactor\<close> and \<open>lateralVelocity\<close> after the block. The lateral
  direction is taken from the quaternion after \<^verbatim>\<open>rotation.y\<close> was increased.
\<close>

definition steers :: "real \<Rightarrow> Vector3 \<Rightarrow> bool" where
  "steers steer v = (\<bar>length3 v\<bar> > 0.1 \<and> steer \<noteq> 0)"

definition derivedDrift :: "real \<Rightarrow> real \<Rightarrow> Vector3 \<Rightarrow> real" where
  "derivedDrift steer h v =
     (let speedFactor = min (length3 v / 50) 1 in \<bar>steer\<bar> * speedFactor * (1 + h * 2))"

definition steerAndDrift ::
  "real \<Rightarrow> real \<Rightarrow> real \<Rightarrow> Vector3 \<Rightarrow> Euler \<Rightarrow> real \<Rightarrow> Vector3 \<Rightarrow> Euler \<times> real \<times> Vector3" where
  "steerAndDrift steer deltaTime h v rot drift lat =
     (if steers steer v then
        (let steerAmount = steer * deltaTime * min (\<bar>length3 v\<bar> / 30) 1;
             drift1 = derivedDrift steer h v;
             rot1 = rot\<lparr>ey := ey rot + steerAmount * (1 + h * 0.8)\<rparr>;
             lateralDirection = applyQuaternion3 \<lparr>vx = 1, vy = 0, vz = 0\<rparr> (setFromEuler rot1);
             lateralForce = multiplyScalar3 lateralDirection
               (steer * drift1 * length3 v * deltaTime * (0.5 + h * 0.7));
             lat1 = (if drift1 > 0.2 \<or> h > 0.3 then add3 lat lateralForce else lat)
         in (rot1, drift1, lat1))
      else (rot, drift, lat))"

text \<open>
  Line 438: \<^verbatim>\<open>Math.min(800 + (speed / currentMaxSpeed) * 6000, 7000)\<close>. With
  \<^verbatim>\<open>currentMaxSpeed\<close> undefined the result is NaN; with \<open>currentMaxSpeed = 0\<close>
  the quotient is NaN or infinite.
\<close>

definition rpmFor :: "real \<Rightarrow> real option \<Rightarrow> real option" where
  "rpmFor spd currentMaxSpeed =
     (case currentMaxSpeed of
        None \<Rightarrow> None
      | Some c \<Rightarrow>
          if c = 0 then (if spd > 0 then Some 7000 else None)
          else Some (min (800 + (spd / c) * 6000) 7000))"

text \<open>
  One frame of \<^verbatim>\<open>animate\<close> (lines 354-446) on the vehicle, statement by
  statement: each block of the source is a function from the closure's variables
  to the closure's variables. \<open>keys\<close> is the keyboard as the frame finds it and
  \<open>deltaTime\<close> the value of \<^verbatim>\<open>clock.getDelta()\<close>. The constants
  \<^verbatim>\<open>currentMaxSpeed\<close> and \<^verbatim>\<open>engineForce\<close> of the source are computed from
  \<open>gear\<close>, which no block before the last one writes. The AI cars, the camera
  position and the rendering that follow do not write to the vehicle.
\<close>

text \<open>Lines 362-375.\<close>

definition readControls :: "Keys \<Rightarrow> Vehicle \<Rightarrow> Vehicle" where
  "readControls keys s =
     s\<lparr>acceleration := readAcceleration keys,
       steering := readSteering keys,
       isHandbraking := held keys ''space'',
       currentCameraMode := (if held keys ''keyc''
                             then (if currentCameraMode s = TPP then FPP else TPP)
                             else currentCameraMode s)\<rparr>"

text \<open>Lines 377-381.\<close>

definition handbrakePhase :: "real \<Rightarrow> Vehicle \<Rightarrow> Vehicle" where
  "handbrakePhase deltaTime s =
     s\<lparr>handbrakeIntensity := smoothHandbrake (isHandbraking s) deltaTime (handbrakeIntensity s)\<rparr>"

text \<open>Lines 383-403.\<close>

definition enginePhase :: "real \<Rightarrow> Vehicle \<Rightarrow> Vehicle" where
  "enginePhase deltaTime s =
     (let currentMaxSpeed = arrayGet maxSpeedByGear (gear s);
          force = engineForce (acceleration s) (gear s)
      in s\<lparr>velocity := capSpeed currentMaxSpeed
             (forceAndDrag (acceleration s) force (setFromEuler (rotation s)) deltaTime
                (velocity s))\<rparr>)"

text \<open>Lines 405-424.\<close>

definition steeringPhase :: "real \<Rightarrow> Vehicle \<Rightarrow> Vehicle" where
  "steeringPhase deltaTime s =
     (case steerAndDrift (steering s) deltaTime (handbrakeIntensity s) (velocity s)
             (rotation s) (driftFactor s) (lateralVelocity s) of
        (rot, drift, lat) \<Rightarrow> s\<lparr>rotation := rot, driftFactor := drift, lateralVelocity := lat\<rparr>)"

text \<open>Lines 426-429, with \<^verbatim>\<open>lateralGrip\<close> of line 389.\<close>

definition movementPhase :: "real \<Rightarrow> Vehicle \<Rightarrow> Vehicle" where
  "movementPhase deltaTime s =
     (let lateralGrip = 0.7 - handbrakeIntensity s * 0.6;
          lat = multiplyScalar3 (lateralVelocity s) lateralGrip;
          totalMovement = add3 (velocity s) lat
      in s\<lparr>lateralVelocity := lat,
           position := add3 (position s) (multiplyScalar3 totalMovement deltaTime)\<rparr>)"

text \<open>Lines 431-435.\<close>

definition brakingPhase :: "Vehicle \<Rightarrow> Vehicle" where
  "brakingPhase s =
     (if handbrakeIntensity s > 0 then
        (let brakingForce = 0.85 + handbrakeIntensity s * 0.1
         in s\<lparr>velocity := multiplyScalar3 (velocity s) brakingForce,
              lateralVelocity :=
                multiplyScalar3 (lateralVelocity s) (0.5 + handbrakeIntensity s * 0.3)\<rparr>)
      else s)"

text \<open>Lines 437-438.\<close>

definition telemetryPhase :: "Vehicle \<Rightarrow> Vehicle" where
  "telemetryPhase s =
     (let spd = length3 (velocity s) * 2.5
      in s\<lparr>speed := spd, rpm := rpmFor spd (arrayGet maxSpeedByGear (gear s))\<rparr>)"

text \<open>Lines 440-446.\<close>

definition gearPhase :: "Keys \<Rightarrow> Vehicle \<Rightarrow> Vehicle" where
  "gearPhase keys s =
     (let currentMaxSpeed = arrayGet maxSpeedByGear (gear s)
      in if \<not> held keys ''keyu''
            \<and> gtNumber (speed s) (map_option (\<lambda>c. c * 0.9) currentMaxSpeed) \<and> gear s < 6
         then s\<lparr>gear := gear s + 1, rpm := Some 2500\<rparr>
         else if \<not> held keys ''keyu''
            \<and> ltNumber (speed s) (map_option (\<lambda>c. c * 0.4) currentMaxSpeed) \<and> gear s > 1
         then s\<lparr>gear := gear s - 1, rpm := Some 4500\<rparr>
         else s)"

definition animate :: "Keys \<Rightarrow> real \<Rightarrow> Vehicle \<Rightarrow> Vehicle" where
  "animate keys deltaTime s =
     gearPhase keys
       (telemetryPhase
          (brakingPhase
             (movementPhase deltaTime
                (steeringPhase deltaTime
                   (enginePhase deltaTime
                      (handbrakePhase deltaTime
                         (readControls keys s)))))))"

text \<open>The values the closure starts with (lines 301-321).\<close>

definition initialVehicle :: Vehicle where
  "initialVehicle =
     \<lparr>position = \<lparr>vx = px (generateRandomTrack ! 0), vy = 0.5, vz = pz (generateRandomTrack ! 0)\<rparr>,
      rotation = \<lparr>ex = 0, ey = 0, ez = 0\<rparr>,
      velocity = \<lparr>vx = 0, vy = 0, vz = 0\<rparr>,
      lateralVelocity = \<lparr>vx = 0, vy = 0, vz = 0\<rparr>,
      acceleration = 0,
      steering = 0,
      speed = 0,
      gear = 1,
      rpm = Some 800,
      isHandbraking = False,
      currentCameraMode = TPP,
      driftFactor = 0,
      handbrakeIntensity = 0\<rparr>"

section \<open>Events\<close>

text \<open>
  What can happen to the closure: a key goes down (\<^verbatim>\<open>handleKeyDown\<close>), a key
  goes up (\<^verbatim>\<open>handleKeyUp\<close>, lines 329-336, which also shifts the gear on the
  key U), a frame is animated with the clock's delta, or the effect runs again
  (its dependencies, line 540, change when a car model is loaded) and every
  variable starts afresh.
\<close>

datatype Event = KeyDown string | KeyUp string | Frame real | Remount

fun handleEvent :: "Keys \<times> Vehicle \<Rightarrow> Event \<Rightarrow> Keys \<times> Vehicle" where
  "handleEvent (keys, s) (KeyDown code) = (keys(toLowerCase code \<mapsto> True), s)"
| "handleEvent (keys, s) (KeyUp code) =
     (keys(toLowerCase code \<mapsto> False),
      if toLowerCase code = ''keyu''
      then s\<lparr>gear := (if gear s \<ge> 6 then 1 else gear s + 1), rpm := Some 3000\<rparr>
      else s)"
| "handleEvent (keys, s) (Frame deltaTime) = (keys, animate keys deltaTime s)"
| "handleEvent (keys, s) Remount = (Map.empty, initialVehicle)"

definition play :: "Event list \<Rightarrow> Keys \<times> Vehicle" where
  "play events = foldl handleEvent (Map.empty, initialVehicle) events"

text \<open>\<^verbatim>\<open>THREE.Clock.getDelta\<close> never returns a negative number.\<close>

fun clockDelta :: "Event \<Rightarrow> bool" where
  "clockDelta (Frame deltaTime) = (0 \<le> deltaTime)"
| "clockDelta _ = True"

section \<open>Quantities the properties speak about\<close>

text \<open>
  The two values the steering block of a frame reads: \<open>handbrakeIntensity\<close>
  after the handbrake was smoothed, and \<open>velocity\<close> after force, drag and cap.
\<close>

definition frameHandbrake :: "Keys \<Rightarrow> real \<Rightarrow> Vehicle \<Rightarrow> real" where
  "frameHandbrake keys deltaTime s =
     handbrakeIntensity (handbrakePhase deltaTime (readControls keys s))"

definition drivenVelocity :: "Keys \<Rightarrow> real \<Rightarrow> Vehicle \<Rightarrow> Vector3" where
  "drivenVelocity keys deltaTime s =
     velocity (enginePhase deltaTime (handbrakePhase deltaTime (readControls keys s)))"

text \<open>
  The velocity of a frame after force and drag (lines 391-399), before the cap;
  and the test of line 401, \<^verbatim>\<open>velocity.length() > currentMaxSpeed\<close>, under
  which the frame rescales the velocity.
\<close>

definition thrustVelocity :: "Keys \<Rightarrow> real \<Rightarrow> Vehicle \<Rightarrow> Vector3" where
  "thrustVelocity keys deltaTime s =
     forceAndDrag (readAcceleration keys) (engineForce (readAcceleration keys) (gear s))
       (setFromEuler (rotation s)) deltaTime (velocity s)"

definition capEngages :: "Keys \<Rightarrow> real \<Rightarrow> Vehicle \<Rightarrow> bool" where
  "capEngages keys deltaTime s =
     gtNumber (length3 (thrustVelocity keys deltaTime s)) (arrayGet maxSpeedByGear (gear s))"

text \<open>The ranges the data model gives to \<open>gear\<close> and \<open>handbrakeIntensity\<close>.\<close>

definition inRange :: "Vehicle \<Rightarrow> bool" where
  "inRange s =
     (1 \<le> gear s \<and> gear s \<le> 6 \<and> 0 \<le> handbrakeIntensity s \<and> handbrakeIntensity s \<le> 1)"

text \<open>
  Motion in the plane: no vertical velocity, the car at height 0.5, and a
  rotation about the vertical axis only.
\<close>

definition planar :: "Vehicle \<Rightarrow> bool" where
  "planar s =
     (vy (velocity s) = 0 \<and> vy (lateralVelocity s) = 0 \<and> vy (position s) = 0.5
      \<and> ex (rotation s) = 0 \<and> ez (rotation s) = 0)"

text \<open>
  The keyboard with only W down, and the vehicle after \<open>n\<close> frames of the
  same \<open>deltaTime\<close> with that keyboard, from the initial values.
\<close>

definition holdingThrottle :: Keys where
  "holdingThrottle = [''keyw'' \<mapsto> True]"








section \<open>Facts about the vector library\<close>

lemma length3_nonneg: "0 \<le> length3 v"
  by (simp add: length3_def)

lemma length3_multiplyScalar3: "length3 (multiplyScalar3 v k) = \<bar>k\<bar> * length3 v"
proof -
  have "vx v * k * (vx v * k) + vy v * k * (vy v * k) + vz v * k * (vz v * k)
        = k\<^sup>2 * (vx v * vx v + vy v * vy v + vz v * vz v)"
    by (simp add: power2_eq_square algebra_simps)
  then show ?thesis
    by (simp add: length3_def multiplyScalar3_def real_sqrt_mult)
qed

lemma length3_capped:
  assumes "c < length3 v" "0 \<le> c"
  shows "length3 (multiplyScalar3 (normalize3 v) c) = c"
proof -
  have pos: "0 < length3 v" using assms by linarith
  have "length3 (normalize3 v) = 1"
    using pos by (simp add: normalize3_def divideScalar3_def length3_multiplyScalar3)
  then show ?thesis using assms by (simp add: length3_multiplyScalar3)
qed

section \<open>The generated track\<close>

lemma radius_bounds:
  "157 \<le> baseRadius + sin a * 15 + cos b * 8" "baseRadius + sin a * 15 + cos b * 8 \<le> 203"
  using sin_ge_minus_one [of a] sin_le_one [of a] cos_ge_minus_one [of b] cos_le_one [of b]
  unfolding baseRadius_def by linarith+

lemma distance_origin_polar:
  assumes "0 \<le> r"
  shows "distance \<lparr>px = cos a * r, pz = sin a * r\<rparr> origin = r"
proof -
  have "c * r * (c * r) + s * r * (s * r) = (r * r) * (c * c + s * s)" for c s :: real
    by (simp add: algebra_simps)
  then have "cos a * r * (cos a * r) + sin a * r * (sin a * r)
        = (r * r) * (cos a * cos a + sin a * sin a)" .
  also have "\<dots> = r * r"
    by (simp only: sin_cos_squared_add3 mult_1_right)
  finally show ?thesis using assms by (simp add: distance_def origin_def)
qed

lemma distance_trackPointAt:
  "157 \<le> distance (trackPointAt i) origin \<and> distance (trackPointAt i) origin \<le> 203"
proof -
  define a where "a = (real i / real numPoints) * pi * 2"
  define r where "r = baseRadius + sin (a * 2) * 15 + cos (a * 4) * 8"
  have r: "157 \<le> r" "r \<le> 203" unfolding r_def by (rule radius_bounds)+
  have "trackPointAt i = \<lparr>px = cos a * r, pz = sin a * r\<rparr>"
    by (simp add: trackPointAt_def a_def r_def Let_def)
  moreover have "distance \<lparr>px = cos a * r, pz = sin a * r\<rparr> origin = r"
    using r by (intro distance_origin_polar) simp
  ultimately show ?thesis using r by simp
qed

text \<open>
  C5. \<^verbatim>\<open>generateRandomTrack\<close> (32 points, base radius 180, amplitudes 15 and 8)
  returns exactly 32 centerline points; point \<open>i\<close> is
  \<open>(cos angle * radius, sin angle * radius)\<close> with \<open>angle = (i / 32) * 2 pi\<close> and
  \<open>radius = 180 + 15 sin (2 angle) + 8 cos (4 angle)\<close>, and its Euclidean distance
  from the origin lies between \<open>180 - 23\<close> and \<open>180 + 23\<close>.
\<close>

theorem track_has_32_points_within_band:
  "length generateRandomTrack = 32 \<and>
   (\<forall>i<32. generateRandomTrack ! i =
              (let angle = (real i / 32) * 2 * pi;
                   radius = 180 + 15 * sin (2 * angle) + 8 * cos (4 * angle)
               in \<lparr>px = cos angle * radius, pz = sin angle * radius\<rparr>)
          \<and> 180 - 23 \<le> distance (generateRandomTrack ! i) origin
          \<and> distance (generateRandomTrack ! i) origin \<le> 180 + 23)"
proof (intro conjI allI impI)
  show "length generateRandomTrack = 32"
    by (simp add: generateRandomTrack_def numPoints_def)
next
  fix i :: nat assume "i < 32"
  then have nth: "generateRandomTrack ! i = trackPointAt i"
    by (simp add: generateRandomTrack_def numPoints_def)
  show "generateRandomTrack ! i =
              (let angle = (real i / 32) * 2 * pi;
                   radius = 180 + 15 * sin (2 * angle) + 8 * cos (4 * angle)
               in \<lparr>px = cos angle * radius, pz = sin angle * radius\<rparr>)"
    by (simp add: nth trackPointAt_def numPoints_def baseRadius_def Let_def mult.commute mult.left_commute)
  show "180 - 23 \<le> distance (generateRandomTrack ! i) origin"
    using distance_trackPointAt [of i] by (simp add: nth)
  show "distance (generateRandomTrack ! i) origin \<le> 180 + 23"
    using distance_trackPointAt [of i] by (simp add: nth)
qed

theorem track_has_32_points_within_band_witness:
  "length generateRandomTrack = 32 \<and> (0::nat) < 32
   \<and> generateRandomTrack ! 0 = \<lparr>px = 188, pz = 0\<rparr>
   \<and> 157 \<le> distance (generateRandomTrack ! 0) origin
   \<and> distance (generateRandomTrack ! 0) origin \<le> 203"
proof -
  have zero: "(0::nat) < 32" by simp
  have all: "generateRandomTrack ! 0 =
              (let angle = (real 0 / 32) * 2 * pi;
                   radius = 180 + 15 * sin (2 * angle) + 8 * cos (4 * angle)
               in \<lparr>px = cos angle * radius, pz = sin angle * radius\<rparr>)
          \<and> 180 - 23 \<le> distance (generateRandomTrack ! 0) origin
          \<and> distance (generateRandomTrack ! 0) origin \<le> 180 + 23"
    using track_has_32_points_within_band zero by blast
  have len: "length generateRandomTrack = 32"
    using track_has_32_points_within_band by blast
  from all have "generateRandomTrack ! 0 = \<lparr>px = 188, pz = 0\<rparr>"
    by (simp add: Let_def)
  with all len show ?thesis by simp
qed

lemma trackPointAt_polar:
  obtains r where "157 \<le> r"
    "trackPointAt i = \<lparr>px = cos (real i / 32 * pi * 2) * r, pz = sin (real i / 32 * pi * 2) * r\<rparr>"
proof -
  define a where "a = real i / 32 * pi * 2"
  define r where "r = baseRadius + sin (a * 2) * 15 + cos (a * 4) * 8"
  have "157 \<le> r" unfolding r_def by (rule radius_bounds)
  moreover have "trackPointAt i = \<lparr>px = cos a * r, pz = sin a * r\<rparr>"
    by (simp add: trackPointAt_def a_def r_def Let_def numPoints_def)
  ultimately show ?thesis using that unfolding a_def by blast
qed

lemma same_direction_same_index:
  fixes i j :: nat
  assumes "i < 32" "j < 32"
    and c: "cos (real i / 32 * pi * 2) = cos (real j / 32 * pi * 2)"
    and s: "sin (real i / 32 * pi * 2) = sin (real j / 32 * pi * 2)"
  shows "i = j"
proof -
  let ?a = "real i / 32 * pi * 2" and ?b = "real j / 32 * pi * 2"
  have "cos (?a - ?b) = cos ?b * cos ?b + sin ?b * sin ?b"
    by (simp only: cos_diff c s)
  then have "cos (?a - ?b) = 1" by simp
  then obtain n :: int where n: "?a - ?b = real_of_int n * 2 * pi"
    using cos_one_2pi_int by blast
  have "(real i - real j) / 32 * (2 * pi) = real_of_int n * (2 * pi)"
    using n by (simp add: algebra_simps)
  then have "(real i - real j) / 32 = real_of_int n"
    by simp
  then have "real_of_int (int i - int j) = real_of_int (32 * n)"
    by simp
  then have eq: "int i - int j = 32 * n"
    by (simp only: of_int_eq_iff)
  have "32 * n < 32" "- 32 < 32 * n"
    using assms(1,2) eq by linarith+
  then have "n = 0" by linarith
  with eq show ?thesis by simp
qed

lemma trackPointAt_inj:
  assumes "i < 32" "j < 32" "trackPointAt i = trackPointAt j"
  shows "i = j"
proof -
  obtain r where r: "157 \<le> r"
    "trackPointAt i = \<lparr>px = cos (real i / 32 * pi * 2) * r, pz = sin (real i / 32 * pi * 2) * r\<rparr>"
    by (rule trackPointAt_polar)
  obtain q where q: "157 \<le> q"
    "trackPointAt j = \<lparr>px = cos (real j / 32 * pi * 2) * q, pz = sin (real j / 32 * pi * 2) * q\<rparr>"
    by (rule trackPointAt_polar)
  have "distance (trackPointAt i) origin = r"
    unfolding r(2) using r(1) by (intro distance_origin_polar) simp
  moreover have "distance (trackPointAt j) origin = q"
    unfolding q(2) using q(1) by (intro distance_origin_polar) simp
  ultimately have rq: "r = q" using assms(3) by simp
  have "r \<noteq> 0" using r(1) by simp
  from assms(3) have "cos (real i / 32 * pi * 2) * r = cos (real j / 32 * pi * 2) * r"
    "sin (real i / 32 * pi * 2) * r = sin (real j / 32 * pi * 2) * r"
    unfolding r(2) q(2) rq by simp_all
  with \<open>r \<noteq> 0\<close> have "cos (real i / 32 * pi * 2) = cos (real j / 32 * pi * 2)"
    "sin (real i / 32 * pi * 2) = sin (real j / 32 * pi * 2)"
    by simp_all
  with assms(1,2) show ?thesis by (rule same_direction_same_index)
qed

lemma length2_normalize2:
  assumes "v \<noteq> \<lparr>ux = 0, uy = 0\<rparr>"
  shows "length2 (normalize2 v) = 1"
proof -
  have "ux v \<noteq> 0 \<or> uy v \<noteq> 0"
    using assms by (cases v) auto
  then have "0 < ux v * ux v + uy v * uy v"
    by (metis add_pos_nonneg add_nonneg_pos zero_le_square not_real_square_gt_zero)
  then have pos: "0 < length2 v"
    by (simp add: length2_def)
  have "ux v * k * (ux v * k) + uy v * k * (uy v * k) = (k * k) * (ux v * ux v + uy v * uy v)"
    for k by (simp add: algebra_simps)
  then have scale: "length2 \<lparr>ux = ux v * k, uy = uy v * k\<rparr> = \<bar>k\<bar> * length2 v" for k
    by (simp add: length2_def real_sqrt_mult)
  have n: "normalize2 v = \<lparr>ux = ux v * (1 / length2 v), uy = uy v * (1 / length2 v)\<rparr>"
    using pos by (simp add: normalize2_def Let_def)
  have "length2 (normalize2 v) = \<bar>1 / length2 v\<bar> * length2 v"
    unfolding n by (rule scale)
  then show ?thesis using pos by simp
qed

lemma offset_distance:
  assumes "length2 \<lparr>ux = a, uy = b\<rparr> = 1" "0 \<le> w"
  shows "distance \<lparr>px = x + (- b) * w, pz = z + a * w\<rparr> \<lparr>px = x, pz = z\<rparr> = w"
    and "distance \<lparr>px = x - (- b) * w, pz = z - a * w\<rparr> \<lparr>px = x, pz = z\<rparr> = w"
proof -
  have one: "a * a + b * b = 1"
    using assms(1) by (simp add: length2_def)
  have "b * w * (b * w) + a * w * (a * w) = (w * w) * (a * a + b * b)"
    by (simp add: algebra_simps)
  then have sq: "b * w * (b * w) + a * w * (a * w) = w * w"
    by (simp only: one mult_1_right)
  show "distance \<lparr>px = x + (- b) * w, pz = z + a * w\<rparr> \<lparr>px = x, pz = z\<rparr> = w"
    using assms(2) by (simp add: distance_def sq)
  show "distance \<lparr>px = x - (- b) * w, pz = z - a * w\<rparr> \<lparr>px = x, pz = z\<rparr> = w"
    using assms(2) by (simp add: distance_def sq)
qed


lemma neighbours_inside:
  fixes i :: nat
  assumes "i < 32"
  shows "(i + 1) mod 32 < 32" "nat ((int i - 1 + int 32) mod int 32) < 32"
    "(i + 1) mod 32 \<noteq> nat ((int i - 1 + int 32) mod int 32)"
proof -
  show "(i + 1) mod 32 < 32" by simp
  show "nat ((int i - 1 + int 32) mod int 32) < 32"
    by (simp add: nat_less_iff)
  show "(i + 1) mod 32 \<noteq> nat ((int i - 1 + int 32) mod int 32)"
  proof
    assume e: "(i + 1) mod 32 = nat ((int i - 1 + int 32) mod int 32)"
    have "int ((i + 1) mod 32) = (int i + 1) mod 32"
      by (simp add: zmod_int add.commute)
    moreover have "int (nat ((int i - 1 + int 32) mod int 32)) = (int i - 1 + 32) mod 32"
      by simp
    ultimately have "(int i + 1) mod 32 = (int i - 1 + 32) mod 32"
      using e by simp
    then have "32 dvd (int i + 1) - (int i - 1 + 32)"
      by (simp only: mod_eq_dvd_iff)
    then have "(32::int) dvd - 30" by simp
    then show False by simp
  qed
qed

lemma perpendicularAt_track_unit:
  assumes "i < 32"
  shows "length2 \<lparr>ux = uy (perpendicularAt generateRandomTrack i),
                   uy = - ux (perpendicularAt generateRandomTrack i)\<rparr> = 1"
proof -
  define nx where "nx = (i + 1) mod 32"
  define pv where "pv = nat ((int i - 1 + int 32) mod int 32)"
  have len: "length generateRandomTrack = 32"
    by (simp add: generateRandomTrack_def numPoints_def)
  have nth: "generateRandomTrack ! k = trackPointAt k" if "k < 32" for k
    using that by (simp add: generateRandomTrack_def numPoints_def)
  have inside: "nx < 32" "pv < 32" "nx \<noteq> pv"
    unfolding nx_def pv_def using neighbours_inside [OF assms] by blast+
  have ne: "trackPointAt nx \<noteq> trackPointAt pv"
    using trackPointAt_inj [of nx pv] inside by blast
  define d where "d = \<lparr>ux = px (trackPointAt nx) - px (trackPointAt pv),
                        uy = pz (trackPointAt nx) - pz (trackPointAt pv)\<rparr>"
  have "d \<noteq> \<lparr>ux = 0, uy = 0\<rparr>"
    using ne unfolding d_def by (cases "trackPointAt nx"; cases "trackPointAt pv") auto
  then have unit: "length2 (normalize2 d) = 1"
    by (rule length2_normalize2)
  have "perpendicularAt generateRandomTrack i =
          \<lparr>ux = - uy (normalize2 \<lparr>ux = px (generateRandomTrack ! nx) - px (generateRandomTrack ! pv),
                                   uy = pz (generateRandomTrack ! nx) - pz (generateRandomTrack ! pv)\<rparr>),
           uy = ux (normalize2 \<lparr>ux = px (generateRandomTrack ! nx) - px (generateRandomTrack ! pv),
                                 uy = pz (generateRandomTrack ! nx) - pz (generateRandomTrack ! pv)\<rparr>)\<rparr>"
    unfolding perpendicularAt_def Let_def len nx_def pv_def by (rule refl)
  then have "perpendicularAt generateRandomTrack i
        = \<lparr>ux = - uy (normalize2 d), uy = ux (normalize2 d)\<rparr>"
    unfolding d_def nth [OF inside(1)] nth [OF inside(2)] .
  then show ?thesis using unit by (simp add: length2_def)
qed

lemma previous_index:
  fixes i :: nat
  shows "nat ((int i - 1 + int 32) mod int 32) = (i + 31) mod 32"
proof -
  have "int ((i + 31) mod 32) = (int i + 31) mod 32"
    by (simp add: zmod_int add.commute)
  moreover have "int i - 1 + int 32 = int i + 31"
    by simp
  ultimately have "(int i - 1 + int 32) mod int 32 = int ((i + 31) mod 32)"
    by (simp add: add.commute)
  then show ?thesis by simp
qed

lemma normalize2_explicit:
  assumes "0 < sqrt (a * a + b * b)"
  shows "normalize2 \<lparr>ux = a, uy = b\<rparr>
         = \<lparr>ux = a / sqrt (a * a + b * b), uy = b / sqrt (a * a + b * b)\<rparr>"
  using assms by (simp add: normalize2_def length2_def Let_def)

lemma tangent_at_track:
  assumes "i < 32"
  shows "0 < sqrt ((px (generateRandomTrack ! ((i + 1) mod 32))
                     - px (generateRandomTrack ! ((i + 31) mod 32)))
                  * (px (generateRandomTrack ! ((i + 1) mod 32))
                     - px (generateRandomTrack ! ((i + 31) mod 32)))
                  + (pz (generateRandomTrack ! ((i + 1) mod 32))
                     - pz (generateRandomTrack ! ((i + 31) mod 32)))
                  * (pz (generateRandomTrack ! ((i + 1) mod 32))
                     - pz (generateRandomTrack ! ((i + 31) mod 32))))"
proof -
  define nx where "nx = (i + 1) mod 32"
  define pv where "pv = (i + 31) mod 32"
  have inside: "nx < 32" "pv < 32" "nx \<noteq> pv"
    using neighbours_inside [OF assms] unfolding previous_index nx_def pv_def by blast+
  have nth: "generateRandomTrack ! k = trackPointAt k" if "k < 32" for k
    using that by (simp add: generateRandomTrack_def numPoints_def)
  have ne: "trackPointAt nx \<noteq> trackPointAt pv"
    using trackPointAt_inj [of nx pv] inside by blast
  define dx where "dx = px (trackPointAt nx) - px (trackPointAt pv)"
  define dz where "dz = pz (trackPointAt nx) - pz (trackPointAt pv)"
  have "dx \<noteq> 0 \<or> dz \<noteq> 0"
    using ne unfolding dx_def dz_def by (cases "trackPointAt nx"; cases "trackPointAt pv") auto
  then have "0 < dx * dx + dz * dz"
    by (metis add_pos_nonneg add_nonneg_pos zero_le_square not_real_square_gt_zero)
  then have "0 < sqrt (dx * dx + dz * dz)"
    by simp
  then show ?thesis
    unfolding dx_def dz_def nx_def [symmetric] pv_def [symmetric]
      nth [OF inside(1)] nth [OF inside(2)] .
qed

lemma perpendicularAt_explicit:
  assumes "i < 32"
  shows "perpendicularAt generateRandomTrack i =
     (let nextPoint = generateRandomTrack ! ((i + 1) mod 32);
          prevPoint = generateRandomTrack ! ((i + 31) mod 32);
          dx = px nextPoint - px prevPoint;
          dz = pz nextPoint - pz prevPoint;
          len = sqrt (dx * dx + dz * dz)
      in \<lparr>ux = - (dz / len), uy = dx / len\<rparr>)"
proof -
  have len: "length generateRandomTrack = 32"
    by (simp add: generateRandomTrack_def numPoints_def)
  show ?thesis
    unfolding perpendicularAt_def Let_def len previous_index
      normalize2_explicit [OF tangent_at_track [OF assms]]
    by simp
qed


text \<open>
  C6. For every index \<open>i\<close> of the generated centerline, the outer boundary
  point is centerline point \<open>i\<close> plus, and the inner boundary point is
  centerline point \<open>i\<close> minus, 30 times the direction \<open>(- dz / len, dx / len)\<close>,
  where \<open>(dx, dz)\<close> is the difference between the next and the previous
  centerline point (indices modulo 32, so the previous of 0 is 31) and \<open>len\<close>
  its length: the normalized central difference turned by 90 degrees. The
  neighbours never coincide (\<open>len > 0\<close>), the direction has length 1, and both
  boundary points are at Euclidean distance exactly \<open>trackWidth / 2 = 30\<close> from
  centerline point \<open>i\<close>. The equality is exact over the reals, which is the
  statement "within floating-point tolerance" without the rounding.
\<close>

theorem boundaries_at_half_width:
  "length (outerPoints generateRandomTrack) = length generateRandomTrack \<and>
   length (innerPoints generateRandomTrack) = length generateRandomTrack \<and>
   length generateRandomTrack = 32 \<and>
   trackWidth / 2 = 30 \<and>
   (\<forall>i < length generateRandomTrack.
      (let point = generateRandomTrack ! i;
           nextPoint = generateRandomTrack ! ((i + 1) mod 32);
           prevPoint = generateRandomTrack ! ((i + 31) mod 32);
           dx = px nextPoint - px prevPoint;
           dz = pz nextPoint - pz prevPoint;
           len = sqrt (dx * dx + dz * dz)
       in 0 < len \<and>
          perpendicularAt generateRandomTrack i = \<lparr>ux = - (dz / len), uy = dx / len\<rparr> \<and>
          outerPoints generateRandomTrack ! i
            = \<lparr>px = px point + (- (dz / len)) * 30, pz = pz point + (dx / len) * 30\<rparr> \<and>
          innerPoints generateRandomTrack ! i
            = \<lparr>px = px point - (- (dz / len)) * 30, pz = pz point - (dx / len) * 30\<rparr>) \<and>
      length2 (perpendicularAt generateRandomTrack i) = 1 \<and>
      distance (outerPoints generateRandomTrack ! i) (generateRandomTrack ! i) = trackWidth / 2 \<and>
      distance (innerPoints generateRandomTrack ! i) (generateRandomTrack ! i) = trackWidth / 2)"
proof (intro conjI allI impI)
  show "length (outerPoints generateRandomTrack) = length generateRandomTrack"
    by (simp add: outerPoints_def)
  show "length (innerPoints generateRandomTrack) = length generateRandomTrack"
    by (simp add: innerPoints_def)
  show "length generateRandomTrack = 32"
    by (simp add: generateRandomTrack_def numPoints_def)
  show "trackWidth / 2 = 30"
    by (simp add: trackWidth_def)
next
  fix i assume il: "i < length generateRandomTrack"
  then have i: "i < 32"
    by (simp add: generateRandomTrack_def numPoints_def)
  have outer: "outerPoints generateRandomTrack ! i = outerPointAt generateRandomTrack i"
    and inner: "innerPoints generateRandomTrack ! i = innerPointAt generateRandomTrack i"
    using il by (simp_all add: outerPoints_def innerPoints_def)
  show "let point = generateRandomTrack ! i;
           nextPoint = generateRandomTrack ! ((i + 1) mod 32);
           prevPoint = generateRandomTrack ! ((i + 31) mod 32);
           dx = px nextPoint - px prevPoint;
           dz = pz nextPoint - pz prevPoint;
           len = sqrt (dx * dx + dz * dz)
       in 0 < len \<and>
          perpendicularAt generateRandomTrack i = \<lparr>ux = - (dz / len), uy = dx / len\<rparr> \<and>
          outerPoints generateRandomTrack ! i
            = \<lparr>px = px point + (- (dz / len)) * 30, pz = pz point + (dx / len) * 30\<rparr> \<and>
          innerPoints generateRandomTrack ! i
            = \<lparr>px = px point - (- (dz / len)) * 30, pz = pz point - (dx / len) * 30\<rparr>"
    unfolding Let_def
  proof (intro conjI)
    show "0 < sqrt ((px (generateRandomTrack ! ((i + 1) mod 32))
                     - px (generateRandomTrack ! ((i + 31) mod 32)))
                  * (px (generateRandomTrack ! ((i + 1) mod 32))
                     - px (generateRandomTrack ! ((i + 31) mod 32)))
                  + (pz (generateRandomTrack ! ((i + 1) mod 32))
                     - pz (generateRandomTrack ! ((i + 31) mod 32)))
                  * (pz (generateRandomTrack ! ((i + 1) mod 32))
                     - pz (generateRandomTrack ! ((i + 31) mod 32))))"
      using i by (rule tangent_at_track)
  qed (simp_all add: outer inner outerPointAt_def innerPointAt_def
         perpendicularAt_explicit [OF i] trackWidth_def Let_def)
next
  fix i assume il: "i < length generateRandomTrack"
  then have i: "i < 32"
    by (simp add: generateRandomTrack_def numPoints_def)
  define a where "a = uy (perpendicularAt generateRandomTrack i)"
  define b where "b = - ux (perpendicularAt generateRandomTrack i)"
  have unit: "length2 \<lparr>ux = a, uy = b\<rparr> = 1"
    unfolding a_def b_def using i by (rule perpendicularAt_track_unit)
  then show "length2 (perpendicularAt generateRandomTrack i) = 1"
    by (simp add: length2_def a_def b_def add.commute)
  obtain x z where pt: "generateRandomTrack ! i = \<lparr>px = x, pz = z\<rparr>"
    by (cases "generateRandomTrack ! i") auto
  have w: "(0::real) \<le> trackWidth / 2"
    by (simp add: trackWidth_def)
  have "outerPoints generateRandomTrack ! i
        = \<lparr>px = x + (- b) * (trackWidth / 2), pz = z + a * (trackWidth / 2)\<rparr>"
    using il by (simp add: outerPoints_def outerPointAt_def Let_def pt a_def b_def)
  then show "distance (outerPoints generateRandomTrack ! i) (generateRandomTrack ! i) = trackWidth / 2"
    unfolding pt using offset_distance(1) [OF unit w] by simp
  have "innerPoints generateRandomTrack ! i
        = \<lparr>px = x - (- b) * (trackWidth / 2), pz = z - a * (trackWidth / 2)\<rparr>"
    using il by (simp add: innerPoints_def innerPointAt_def Let_def pt a_def b_def)
  then show "distance (innerPoints generateRandomTrack ! i) (generateRandomTrack ! i) = trackWidth / 2"
    unfolding pt using offset_distance(2) [OF unit w] by simp
qed

theorem boundaries_at_half_width_witness:
  "(0::nat) < length generateRandomTrack \<and>
   (let point = generateRandomTrack ! 0;
        nextPoint = generateRandomTrack ! 1;
        prevPoint = generateRandomTrack ! 31;
        dx = px nextPoint - px prevPoint;
        dz = pz nextPoint - pz prevPoint;
        len = sqrt (dx * dx + dz * dz)
    in 0 < len \<and>
       outerPoints generateRandomTrack ! 0
         = \<lparr>px = px point + (- (dz / len)) * 30, pz = pz point + (dx / len) * 30\<rparr> \<and>
       innerPoints generateRandomTrack ! 0
         = \<lparr>px = px point - (- (dz / len)) * 30, pz = pz point - (dx / len) * 30\<rparr>) \<and>
   length2 (perpendicularAt generateRandomTrack 0) = 1 \<and>
   distance (outerPoints generateRandomTrack ! 0) (generateRandomTrack ! 0) = 30 \<and>
   distance (innerPoints generateRandomTrack ! 0) (generateRandomTrack ! 0) = 30"
proof -
  have pos: "(0::nat) < length generateRandomTrack"
    by (simp add: generateRandomTrack_def numPoints_def)
  have w: "trackWidth / 2 = 30"
    by (simp add: trackWidth_def)
  have idx: "(0 + 1) mod 32 = (1::nat)" "(0 + 31) mod 32 = (31::nat)"
    by simp_all
  from boundaries_at_half_width pos
  have "(let point = generateRandomTrack ! 0;
           nextPoint = generateRandomTrack ! ((0 + 1) mod 32);
           prevPoint = generateRandomTrack ! ((0 + 31) mod 32);
           dx = px nextPoint - px prevPoint;
           dz = pz nextPoint - pz prevPoint;
           len = sqrt (dx * dx + dz * dz)
       in 0 < len \<and>
          perpendicularAt generateRandomTrack 0 = \<lparr>ux = - (dz / len), uy = dx / len\<rparr> \<and>
          outerPoints generateRandomTrack ! 0
            = \<lparr>px = px point + (- (dz / len)) * 30, pz = pz point + (dx / len) * 30\<rparr> \<and>
          innerPoints generateRandomTrack ! 0
            = \<lparr>px = px point - (- (dz / len)) * 30, pz = pz point - (dx / len) * 30\<rparr>) \<and>
        length2 (perpendicularAt generateRandomTrack 0) = 1 \<and>
        distance (outerPoints generateRandomTrack ! 0) (generateRandomTrack ! 0) = trackWidth / 2 \<and>
        distance (innerPoints generateRandomTrack ! 0) (generateRandomTrack ! 0) = trackWidth / 2"
    by blast
  then show ?thesis
    unfolding w idx Let_def using pos by blast
qed

section \<open>What each block of a frame writes\<close>

lemma readControls_fields [simp]:
  "position (readControls keys s) = position s"
  "rotation (readControls keys s) = rotation s"
  "velocity (readControls keys s) = velocity s"
  "lateralVelocity (readControls keys s) = lateralVelocity s"
  "speed (readControls keys s) = speed s"
  "gear (readControls keys s) = gear s"
  "rpm (readControls keys s) = rpm s"
  "driftFactor (readControls keys s) = driftFactor s"
  "handbrakeIntensity (readControls keys s) = handbrakeIntensity s"
  "acceleration (readControls keys s) = readAcceleration keys"
  "steering (readControls keys s) = readSteering keys"
  "isHandbraking (readControls keys s) = held keys ''space''"
  by (simp_all add: readControls_def)

lemma handbrakePhase_fields [simp]:
  "position (handbrakePhase dt s) = position s"
  "rotation (handbrakePhase dt s) = rotation s"
  "velocity (handbrakePhase dt s) = velocity s"
  "lateralVelocity (handbrakePhase dt s) = lateralVelocity s"
  "speed (handbrakePhase dt s) = speed s"
  "gear (handbrakePhase dt s) = gear s"
  "rpm (handbrakePhase dt s) = rpm s"
  "driftFactor (handbrakePhase dt s) = driftFactor s"
  "acceleration (handbrakePhase dt s) = acceleration s"
  "steering (handbrakePhase dt s) = steering s"
  "isHandbraking (handbrakePhase dt s) = isHandbraking s"
  "handbrakeIntensity (handbrakePhase dt s)
     = smoothHandbrake (isHandbraking s) dt (handbrakeIntensity s)"
  by (simp_all add: handbrakePhase_def)

lemma enginePhase_fields [simp]:
  "position (enginePhase dt s) = position s"
  "rotation (enginePhase dt s) = rotation s"
  "lateralVelocity (enginePhase dt s) = lateralVelocity s"
  "speed (enginePhase dt s) = speed s"
  "gear (enginePhase dt s) = gear s"
  "rpm (enginePhase dt s) = rpm s"
  "driftFactor (enginePhase dt s) = driftFactor s"
  "acceleration (enginePhase dt s) = acceleration s"
  "steering (enginePhase dt s) = steering s"
  "isHandbraking (enginePhase dt s) = isHandbraking s"
  "handbrakeIntensity (enginePhase dt s) = handbrakeIntensity s"
  "velocity (enginePhase dt s)
     = capSpeed (arrayGet maxSpeedByGear (gear s))
         (forceAndDrag (acceleration s) (engineForce (acceleration s) (gear s))
            (setFromEuler (rotation s)) dt (velocity s))"
  by (simp_all add: enginePhase_def Let_def)

lemma steeringPhase_fields [simp]:
  "position (steeringPhase dt s) = position s"
  "velocity (steeringPhase dt s) = velocity s"
  "speed (steeringPhase dt s) = speed s"
  "gear (steeringPhase dt s) = gear s"
  "rpm (steeringPhase dt s) = rpm s"
  "acceleration (steeringPhase dt s) = acceleration s"
  "steering (steeringPhase dt s) = steering s"
  "isHandbraking (steeringPhase dt s) = isHandbraking s"
  "handbrakeIntensity (steeringPhase dt s) = handbrakeIntensity s"
  "rotation (steeringPhase dt s)
     = fst (steerAndDrift (steering s) dt (handbrakeIntensity s) (velocity s)
              (rotation s) (driftFactor s) (lateralVelocity s))"
  "driftFactor (steeringPhase dt s)
     = fst (snd (steerAndDrift (steering s) dt (handbrakeIntensity s) (velocity s)
              (rotation s) (driftFactor s) (lateralVelocity s)))"
  "lateralVelocity (steeringPhase dt s)
     = snd (snd (steerAndDrift (steering s) dt (handbrakeIntensity s) (velocity s)
              (rotation s) (driftFactor s) (lateralVelocity s)))"
  by (simp_all add: steeringPhase_def split: prod.split)

lemma movementPhase_fields [simp]:
  "rotation (movementPhase dt s) = rotation s"
  "velocity (movementPhase dt s) = velocity s"
  "speed (movementPhase dt s) = speed s"
  "gear (movementPhase dt s) = gear s"
  "rpm (movementPhase dt s) = rpm s"
  "driftFactor (movementPhase dt s) = driftFactor s"
  "acceleration (movementPhase dt s) = acceleration s"
  "steering (movementPhase dt s) = steering s"
  "isHandbraking (movementPhase dt s) = isHandbraking s"
  "handbrakeIntensity (movementPhase dt s) = handbrakeIntensity s"
  "lateralVelocity (movementPhase dt s)
     = multiplyScalar3 (lateralVelocity s) (0.7 - handbrakeIntensity s * 0.6)"
  "position (movementPhase dt s)
     = add3 (position s)
         (multiplyScalar3
            (add3 (velocity s)
               (multiplyScalar3 (lateralVelocity s) (0.7 - handbrakeIntensity s * 0.6))) dt)"
  by (simp_all add: movementPhase_def Let_def)

lemma brakingPhase_fields [simp]:
  "position (brakingPhase s) = position s"
  "rotation (brakingPhase s) = rotation s"
  "speed (brakingPhase s) = speed s"
  "gear (brakingPhase s) = gear s"
  "rpm (brakingPhase s) = rpm s"
  "driftFactor (brakingPhase s) = driftFactor s"
  "acceleration (brakingPhase s) = acceleration s"
  "steering (brakingPhase s) = steering s"
  "isHandbraking (brakingPhase s) = isHandbraking s"
  "handbrakeIntensity (brakingPhase s) = handbrakeIntensity s"
  "velocity (brakingPhase s)
     = (if handbrakeIntensity s > 0
        then multiplyScalar3 (velocity s) (0.85 + handbrakeIntensity s * 0.1)
        else velocity s)"
  "lateralVelocity (brakingPhase s)
     = (if handbrakeIntensity s > 0
        then multiplyScalar3 (lateralVelocity s) (0.5 + handbrakeIntensity s * 0.3)
        else lateralVelocity s)"
  by (simp_all add: brakingPhase_def Let_def)

lemma telemetryPhase_fields [simp]:
  "position (telemetryPhase s) = position s"
  "rotation (telemetryPhase s) = rotation s"
  "velocity (telemetryPhase s) = velocity s"
  "lateralVelocity (telemetryPhase s) = lateralVelocity s"
  "gear (telemetryPhase s) = gear s"
  "driftFactor (telemetryPhase s) = driftFactor s"
  "acceleration (telemetryPhase s) = acceleration s"
  "steering (telemetryPhase s) = steering s"
  "isHandbraking (telemetryPhase s) = isHandbraking s"
  "handbrakeIntensity (telemetryPhase s) = handbrakeIntensity s"
  "speed (telemetryPhase s) = length3 (velocity s) * 2.5"
  by (simp_all add: telemetryPhase_def Let_def)

lemma gearPhase_fields [simp]:
  "position (gearPhase keys s) = position s"
  "rotation (gearPhase keys s) = rotation s"
  "velocity (gearPhase keys s) = velocity s"
  "lateralVelocity (gearPhase keys s) = lateralVelocity s"
  "speed (gearPhase keys s) = speed s"
  "driftFactor (gearPhase keys s) = driftFactor s"
  "acceleration (gearPhase keys s) = acceleration s"
  "steering (gearPhase keys s) = steering s"
  "isHandbraking (gearPhase keys s) = isHandbraking s"
  "handbrakeIntensity (gearPhase keys s) = handbrakeIntensity s"
  by (simp_all add: gearPhase_def Let_def)

section \<open>What a frame writes\<close>

lemma handbrakeIntensity_animate:
  "handbrakeIntensity (animate keys dt s) = frameHandbrake keys dt s"
  by (simp add: animate_def frameHandbrake_def)

lemma frameHandbrake_eq:
  "frameHandbrake keys dt s = smoothHandbrake (held keys ''space'') dt (handbrakeIntensity s)"
  by (simp add: frameHandbrake_def)

lemma drivenVelocity_eq:
  "drivenVelocity keys dt s
     = capSpeed (arrayGet maxSpeedByGear (gear s))
         (forceAndDrag (readAcceleration keys) (engineForce (readAcceleration keys) (gear s))
            (setFromEuler (rotation s)) dt (velocity s))"
  by (simp add: drivenVelocity_def)

lemma velocity_animate:
  "velocity (animate keys dt s)
     = (if frameHandbrake keys dt s > 0
        then multiplyScalar3 (drivenVelocity keys dt s) (0.85 + frameHandbrake keys dt s * 0.1)
        else drivenVelocity keys dt s)"
  by (simp add: animate_def frameHandbrake_def drivenVelocity_def)

lemma speed_animate:
  "speed (animate keys dt s) = length3 (velocity (animate keys dt s)) * 2.5"
  by (simp add: animate_def)


lemma rotation_animate:
  "rotation (animate keys dt s)
     = fst (steerAndDrift (readSteering keys) dt (frameHandbrake keys dt s)
              (drivenVelocity keys dt s) (rotation s) (driftFactor s) (lateralVelocity s))"
  by (simp add: animate_def frameHandbrake_def drivenVelocity_def)

lemma lateralVelocity_animate:
  "lateralVelocity (animate keys dt s)
     = (let lat = multiplyScalar3
                    (snd (snd (steerAndDrift (readSteering keys) dt (frameHandbrake keys dt s)
                       (drivenVelocity keys dt s) (rotation s) (driftFactor s) (lateralVelocity s))))
                    (0.7 - frameHandbrake keys dt s * 0.6)
        in if frameHandbrake keys dt s > 0
           then multiplyScalar3 lat (0.5 + frameHandbrake keys dt s * 0.3)
           else lat)"
  by (simp add: animate_def frameHandbrake_def drivenVelocity_def Let_def)

lemma position_animate:
  "position (animate keys dt s)
     = add3 (position s)
         (multiplyScalar3
            (add3 (drivenVelocity keys dt s)
               (multiplyScalar3
                  (snd (snd (steerAndDrift (readSteering keys) dt (frameHandbrake keys dt s)
                     (drivenVelocity keys dt s) (rotation s) (driftFactor s) (lateralVelocity s))))
                  (0.7 - frameHandbrake keys dt s * 0.6))) dt)"
  by (simp add: animate_def frameHandbrake_def drivenVelocity_def)

lemma gear_animate:
  "gear (animate keys dt s)
     = (if \<not> held keys ''keyu''
           \<and> gtNumber (speed (animate keys dt s))
               (map_option (\<lambda>c. c * 0.9) (arrayGet maxSpeedByGear (gear s)))
           \<and> gear s < 6
        then gear s + 1
        else if \<not> held keys ''keyu''
           \<and> ltNumber (speed (animate keys dt s))
               (map_option (\<lambda>c. c * 0.4) (arrayGet maxSpeedByGear (gear s)))
           \<and> gear s > 1
        then gear s - 1
        else gear s)"
  by (simp add: animate_def gearPhase_def Let_def)

section \<open>Driving straight ahead\<close>

lemma length3_along_z: "length3 \<lparr>vx = 0, vy = 0, vz = a\<rparr> = \<bar>a\<bar>"
  by (simp add: length3_def)

lemma forward_unrotated:
  "applyQuaternion3 \<lparr>vx = 0, vy = 0, vz = 1\<rparr> (setFromEuler \<lparr>ex = 0, ey = 0, ez = 0\<rparr>)
   = \<lparr>vx = 0, vy = 0, vz = 1\<rparr>"
  by (simp add: applyQuaternion3_def setFromEuler_def Let_def)

lemma steerAndDrift_straight:
  "steerAndDrift 0 dt h v rot drift lat = (rot, drift, lat)"
  by (simp add: steerAndDrift_def steers_def)

lemma holdingThrottle_controls:
  "readAcceleration holdingThrottle = 1"
  "readSteering holdingThrottle = 0"
  "held holdingThrottle ''space'' = False"
  "held holdingThrottle ''keyu'' = False"
  by (simp_all add: readAcceleration_def readSteering_def held_def holdingThrottle_def Let_def)

lemma forceAndDrag_along_z:
  "acc \<noteq> 0 \<Longrightarrow>
   forceAndDrag acc force (setFromEuler \<lparr>ex = 0, ey = 0, ez = 0\<rparr>) dt \<lparr>vx = 0, vy = 0, vz = a\<rparr>
   = \<lparr>vx = 0, vy = 0, vz = (a + force * dt) * 0.98\<rparr>"
  by (simp add: forceAndDrag_def forward_unrotated multiplyScalar3_def add3_def Let_def)

lemma capSpeed_along_z:
  assumes "0 \<le> a" "0 \<le> c"
  shows "capSpeed (Some c) \<lparr>vx = 0, vy = 0, vz = a\<rparr> = \<lparr>vx = 0, vy = 0, vz = min a c\<rparr>"
proof (cases "c < a")
  case True
  then have "a \<noteq> 0" using assms by linarith
  then show ?thesis
    using True assms
    by (simp add: capSpeed_def length3_along_z normalize3_def divideScalar3_def
        multiplyScalar3_def)
next
  case False
  then show ?thesis
    using assms by (simp add: capSpeed_def length3_along_z)
qed

section \<open>The controls\<close>

text \<open>
  C4. The boost input multiplies the effective throttle by 1.5 only when the
  throttle is strictly positive, so with the throttle at or below zero the engine
  force is the same with and without boost. The frame multiplies
  \<open>acceleration\<close> by 1.5 whenever a shift key is down (line 371), also when it
  is \<open>- 0.5\<close>: braking in gear 1 the engine force is \<open>- 30\<close> with boost and
  \<open>- 20\<close> without. (Forward the throttle becomes 1.5; coasting it stays 0.)
\<close>

theorem boost_scales_braking:
  "readAcceleration [''keyw'' \<mapsto> True, ''shiftleft'' \<mapsto> True] = 1.5
   \<and> readAcceleration [''shiftleft'' \<mapsto> True] = 0
   \<and> readAcceleration [''keys'' \<mapsto> True, ''shiftleft'' \<mapsto> True] = - 0.75
   \<and> readAcceleration [''keys'' \<mapsto> True] = - 0.5
   \<and> engineForce (readAcceleration [''keys'' \<mapsto> True, ''shiftleft'' \<mapsto> True]) 1 = - 30
   \<and> engineForce (readAcceleration [''keys'' \<mapsto> True]) 1 = - 20"
  by (simp add: engineForce_def readAcceleration_def held_def Let_def)

text \<open>
  C8. The concrete scenario: \<open>deltaTime = 1/60\<close>, gear 1, only the throttle
  held, from the initial values (velocity zero, heading along \<open>+z\<close>, handbrake
  intensity 0). The engine force is \<open>1 * (30 + 1 * 10) = 40\<close>; after the frame
  the velocity is \<open>(0, 0, 40 * (1/60) * 0.98)\<close>, whose \<open>z\<close> component is
  \<open>0.653\<close> to three decimals, and \<open>lateralVelocity\<close> is still zero.
\<close>

theorem first_frame_at_full_throttle:
  "gear initialVehicle = 1
   \<and> velocity initialVehicle = \<lparr>vx = 0, vy = 0, vz = 0\<rparr>
   \<and> applyQuaternion3 \<lparr>vx = 0, vy = 0, vz = 1\<rparr> (setFromEuler (rotation initialVehicle))
       = \<lparr>vx = 0, vy = 0, vz = 1\<rparr>
   \<and> engineForce (readAcceleration holdingThrottle) (gear initialVehicle) = 1 * (30 + 1 * 10)
   \<and> engineForce (readAcceleration holdingThrottle) (gear initialVehicle) = 40
   \<and> velocity (animate holdingThrottle (1 / 60) initialVehicle)
       = \<lparr>vx = 0, vy = 0, vz = 40 * (1 / 60) * 0.98\<rparr>
   \<and> \<bar>vz (velocity (animate holdingThrottle (1 / 60) initialVehicle)) - 0.653\<bar> < 0.001
   \<and> lateralVelocity (animate holdingThrottle (1 / 60) initialVehicle)
       = \<lparr>vx = 0, vy = 0, vz = 0\<rparr>"
proof -
  have h: "frameHandbrake holdingThrottle (1 / 60) initialVehicle = 0"
    by (simp add: frameHandbrake_eq holdingThrottle_controls smoothHandbrake_def
        initialVehicle_def)
  have f: "engineForce (readAcceleration holdingThrottle) (gear initialVehicle) = 40"
    by (simp add: holdingThrottle_controls engineForce_def initialVehicle_def)
  have v: "drivenVelocity holdingThrottle (1 / 60) initialVehicle
           = \<lparr>vx = 0, vy = 0, vz = 40 * (1 / 60) * 0.98\<rparr>"
    unfolding drivenVelocity_eq f
    by (simp add: holdingThrottle_controls initialVehicle_def forceAndDrag_along_z
        arrayGet_def maxSpeedByGear_def capSpeed_along_z)
  have l0: "lateralVelocity initialVehicle = \<lparr>vx = 0, vy = 0, vz = 0\<rparr>"
    by (simp add: initialVehicle_def)
  have l: "lateralVelocity (animate holdingThrottle (1 / 60) initialVehicle)
           = \<lparr>vx = 0, vy = 0, vz = 0\<rparr>"
    by (simp add: lateralVelocity_animate h holdingThrottle_controls steerAndDrift_straight
        multiplyScalar3_def l0)
  have v': "velocity (animate holdingThrottle (1 / 60) initialVehicle)
           = \<lparr>vx = 0, vy = 0, vz = 40 * (1 / 60) * 0.98\<rparr>"
    by (simp only: velocity_animate h v if_False less_irrefl)
  have "gear initialVehicle = 1" "velocity initialVehicle = \<lparr>vx = 0, vy = 0, vz = 0\<rparr>"
    "applyQuaternion3 \<lparr>vx = 0, vy = 0, vz = 1\<rparr> (setFromEuler (rotation initialVehicle))
       = \<lparr>vx = 0, vy = 0, vz = 1\<rparr>"
    by (simp_all add: initialVehicle_def forward_unrotated)
  then show ?thesis
    using f l v' by simp
qed

lemma animate_same_controls:
  assumes "readAcceleration k1 = readAcceleration k2" "readSteering k1 = readSteering k2"
    and "held k1 ''space'' = held k2 ''space''" "held k1 ''keyc'' = held k2 ''keyc''"
    and "held k1 ''keyu'' = held k2 ''keyu''"
  shows "animate k1 dt s = animate k2 dt s"
proof -
  have "readControls k1 s = readControls k2 s"
    by (simp add: readControls_def assms)
  moreover have "gearPhase k1 = gearPhase k2"
    by (rule ext) (simp add: gearPhase_def assms cong: if_cong)
  ultimately show ?thesis
    by (simp add: animate_def)
qed

text \<open>
  C9. With a steer-right control (D or the right arrow) held, the steering of
  the frame is that of steer-right, and the frame gives the same result whether
  the steer-left controls (A, the left arrow) are held too, were released, or
  were never pressed: the assignment for steer-right comes second and overrides.
\<close>

theorem right_overrides_left:
  assumes "held keys ''keyd'' \<or> held keys ''arrowright''"
  shows "readSteering keys = - 1
    \<and> readSteering (keys(''keya'' \<mapsto> False, ''arrowleft'' \<mapsto> False)) = - 1
    \<and> readSteering (keys(''keya'' := None, ''arrowleft'' := None)) = - 1
    \<and> animate keys dt s = animate (keys(''keya'' \<mapsto> False, ''arrowleft'' \<mapsto> False)) dt s
    \<and> animate keys dt s = animate (keys(''keya'' := None, ''arrowleft'' := None)) dt s"
proof -
  let ?released = "keys(''keya'' \<mapsto> False, ''arrowleft'' \<mapsto> False)"
  let ?absent = "keys(''keya'' := None, ''arrowleft'' := None)"
  have same: "held ?released k = held keys k" "held ?absent k = held keys k"
    if "k \<noteq> ''keya''" "k \<noteq> ''arrowleft''" for k
    using that by (simp_all add: held_def)
  have st: "readSteering keys = - 1" "readSteering ?released = - 1" "readSteering ?absent = - 1"
    using assms by (auto simp add: readSteering_def Let_def same)
  have acc: "readAcceleration keys = readAcceleration ?released"
    "readAcceleration keys = readAcceleration ?absent"
    by (simp_all add: readAcceleration_def Let_def same)
  have "animate keys dt s = animate ?released dt s"
    by (rule animate_same_controls) (simp_all add: st acc(1) same)
  moreover have "animate keys dt s = animate ?absent dt s"
    by (rule animate_same_controls) (simp_all add: st acc(2) same)
  ultimately show ?thesis using st by simp
qed

theorem right_overrides_left_witness:
  "held [''keya'' \<mapsto> True, ''keyd'' \<mapsto> True] ''keya''
   \<and> held [''keya'' \<mapsto> True, ''keyd'' \<mapsto> True] ''keyd''
   \<and> readSteering [''keya'' \<mapsto> True, ''keyd'' \<mapsto> True] = - 1
   \<and> readSteering [''keyd'' \<mapsto> True] = - 1
   \<and> animate [''keya'' \<mapsto> True, ''keyd'' \<mapsto> True] (1 / 60) initialVehicle
     = animate [''keyd'' \<mapsto> True] (1 / 60) initialVehicle"
proof -
  have h: "held [''keya'' \<mapsto> True, ''keyd'' \<mapsto> True] ''keya''"
    "held [''keya'' \<mapsto> True, ''keyd'' \<mapsto> True] ''keyd''"
    by (simp_all add: held_def)
  have m: "[''keya'' \<mapsto> True, ''keyd'' \<mapsto> True](''keya'' := None, ''arrowleft'' := None)
           = [''keyd'' \<mapsto> True]"
    by (rule ext) simp
  have r: "readSteering [''keya'' \<mapsto> True, ''keyd'' \<mapsto> True] = - 1"
    "readSteering ([''keya'' \<mapsto> True, ''keyd'' \<mapsto> True](''keya'' := None, ''arrowleft'' := None))
       = - 1"
    "animate [''keya'' \<mapsto> True, ''keyd'' \<mapsto> True] (1 / 60) initialVehicle
     = animate ([''keya'' \<mapsto> True, ''keyd'' \<mapsto> True](''keya'' := None, ''arrowleft'' := None))
         (1 / 60) initialVehicle"
    using right_overrides_left [OF disjI1 [OF h(2)], of "1 / 60" initialVehicle] by blast+
  show ?thesis
    using h r unfolding m by blast
qed

section \<open>The drift factor\<close>
















section \<open>Gear and handbrake stay in range\<close>

lemma smoothHandbrake_range:
  assumes "0 \<le> dt" "0 \<le> h" "h \<le> 1"
  shows "0 \<le> smoothHandbrake b dt h" "smoothHandbrake b dt h \<le> 1"
  using assms by (simp_all add: smoothHandbrake_def)

lemma inRange_animate:
  assumes "inRange s" "0 \<le> dt"
  shows "inRange (animate keys dt s)"
proof -
  have g: "1 \<le> gear s" "gear s \<le> 6" and h: "0 \<le> handbrakeIntensity s" "handbrakeIntensity s \<le> 1"
    using assms(1) by (simp_all add: inRange_def)
  have "1 \<le> gear (animate keys dt s)" "gear (animate keys dt s) \<le> 6"
    using g unfolding gear_animate by auto
  moreover have "0 \<le> handbrakeIntensity (animate keys dt s)"
    "handbrakeIntensity (animate keys dt s) \<le> 1"
    unfolding handbrakeIntensity_animate frameHandbrake_eq
    using smoothHandbrake_range [OF assms(2) h] by blast+
  ultimately show ?thesis by (simp add: inRange_def)
qed

lemma inRange_initialVehicle: "inRange initialVehicle"
  by (simp add: inRange_def initialVehicle_def)

lemma inRange_handleEvent:
  assumes "inRange (snd w)" "clockDelta e"
  shows "inRange (snd (handleEvent w e))"
proof (cases w)
  case (Pair keys s)
  show ?thesis
  proof (cases e)
    case (KeyDown code)
    then show ?thesis using assms Pair by simp
  next
    case (KeyUp code)
    then show ?thesis using assms Pair by (simp add: inRange_def)
  next
    case (Frame dt)
    then show ?thesis using assms Pair by (simp add: inRange_animate)
  next
    case Remount
    then show ?thesis using Pair by (simp add: inRange_initialVehicle)
  qed
qed

lemma inRange_foldl:
  "list_all clockDelta events \<Longrightarrow> inRange (snd w)
   \<Longrightarrow> inRange (snd (foldl handleEvent w events))"
  by (induction events arbitrary: w) (simp_all add: inRange_handleEvent)

text \<open>
  C1. In every state reached from the initial values (gear 1, handbrake
  intensity 0) by key presses, key releases, restarts of the effect and
  animated frames whose \<open>deltaTime\<close> is not negative, the gear is between 1
  and 6 and the handbrake intensity between 0 and 1.
\<close>

theorem gear_and_handbrake_in_range:
  assumes "list_all clockDelta events"
  shows "1 \<le> gear (snd (play events)) \<and> gear (snd (play events)) \<le> 6
    \<and> 0 \<le> handbrakeIntensity (snd (play events))
    \<and> handbrakeIntensity (snd (play events)) \<le> 1"
proof -
  have "inRange (snd (play events))"
    unfolding play_def using assms by (rule inRange_foldl) (simp add: inRange_initialVehicle)
  then show ?thesis by (simp add: inRange_def)
qed


theorem gear_and_handbrake_in_range_witness:
  "list_all clockDelta [KeyDown ''Space'', Frame (1 / 2), KeyUp ''KeyU'']
   \<and> gear (snd (play [KeyDown ''Space'', Frame (1 / 2), KeyUp ''KeyU''])) = 2
   \<and> handbrakeIntensity (snd (play [KeyDown ''Space'', Frame (1 / 2), KeyUp ''KeyU''])) = 1
   \<and> 1 \<le> gear (snd (play [KeyDown ''Space'', Frame (1 / 2), KeyUp ''KeyU'']))
   \<and> gear (snd (play [KeyDown ''Space'', Frame (1 / 2), KeyUp ''KeyU''])) \<le> 6
   \<and> 0 \<le> handbrakeIntensity (snd (play [KeyDown ''Space'', Frame (1 / 2), KeyUp ''KeyU'']))
   \<and> handbrakeIntensity (snd (play [KeyDown ''Space'', Frame (1 / 2), KeyUp ''KeyU''])) \<le> 1"
proof -
  let ?events = "[KeyDown ''Space'', Frame (1 / 2), KeyUp ''KeyU'']"
  let ?k = "[''space'' \<mapsto> True]"
  have ok: "list_all clockDelta ?events" by simp
  have lc: "toLowerCase ''Space'' = ''space''" "toLowerCase ''KeyU'' = ''keyu''"
    by (simp_all add: toLowerCase_def lowerChar_def)
  have k: "readAcceleration ?k = 0" "held ?k ''space''" "\<not> held ?k ''keyu''"
    by (simp_all add: readAcceleration_def held_def Let_def)
  have h: "frameHandbrake ?k (1 / 2) initialVehicle = 1"
    by (simp add: frameHandbrake_eq k smoothHandbrake_def initialVehicle_def)
  have v: "drivenVelocity ?k (1 / 2) initialVehicle = \<lparr>vx = 0, vy = 0, vz = 0\<rparr>"
    by (simp add: drivenVelocity_eq k initialVehicle_def forceAndDrag_def multiplyScalar3_def
        arrayGet_def maxSpeedByGear_def capSpeed_along_z Let_def)
  have sp: "speed (animate ?k (1 / 2) initialVehicle) = 0"
    by (simp add: speed_animate velocity_animate h v multiplyScalar3_def length3_along_z)
  have g: "gear (animate ?k (1 / 2) initialVehicle) = 1"
    unfolding gear_animate sp
    by (simp add: k initialVehicle_def arrayGet_def maxSpeedByGear_def gtNumber_def ltNumber_def)
  have hb: "handbrakeIntensity (animate ?k (1 / 2) initialVehicle) = 1"
    by (simp add: handbrakeIntensity_animate h)
  have "snd (play ?events)
        = (animate ?k (1 / 2) initialVehicle)
            \<lparr>gear := (if gear (animate ?k (1 / 2) initialVehicle) \<ge> 6 then 1
                      else gear (animate ?k (1 / 2) initialVehicle) + 1),
             rpm := Some 3000\<rparr>"
    by (simp add: play_def lc)
  then have "gear (snd (play ?events)) = 2" "handbrakeIntensity (snd (play ?events)) = 1"
    by (simp_all add: g hb)
  with ok gear_and_handbrake_in_range [OF ok] show ?thesis by simp
qed

section \<open>Motion stays in the plane\<close>

lemma vy_multiplyScalar3: "vy v = 0 \<Longrightarrow> vy (multiplyScalar3 v k) = 0"
  by (simp add: multiplyScalar3_def)

lemma vy_add3: "vy v = 0 \<Longrightarrow> vy w = 0 \<Longrightarrow> vy (add3 v w) = 0"
  by (simp add: add3_def)

lemma vy_normalize3: "vy v = 0 \<Longrightarrow> vy (normalize3 v) = 0"
  by (simp add: normalize3_def divideScalar3_def vy_multiplyScalar3)

lemma vy_capSpeed: "vy v = 0 \<Longrightarrow> vy (capSpeed c v) = 0"
  by (simp add: capSpeed_def vy_multiplyScalar3 vy_normalize3 split: option.split)

lemma yaw_quaternion:
  assumes "ex e = 0" "ez e = 0"
  shows "qx (setFromEuler e) = 0" "qz (setFromEuler e) = 0"
  using assms by (simp_all add: setFromEuler_def Let_def)

lemma vy_applyQuaternion3:
  assumes "qx q = 0" "qz q = 0"
  shows "vy (applyQuaternion3 v q) = vy v"
  using assms by (simp add: applyQuaternion3_def Let_def)

lemma vy_forceAndDrag:
  assumes "vy v = 0" "ex e = 0" "ez e = 0"
  shows "vy (forceAndDrag acc force (setFromEuler e) dt v) = 0"
  using assms
  by (simp add: forceAndDrag_def Let_def vy_multiplyScalar3 vy_add3 vy_applyQuaternion3
      yaw_quaternion)

lemma steerAndDrift_planar:
  assumes "vy lat = 0" "ex rot = 0" "ez rot = 0"
  shows "ex (fst (steerAndDrift st dt h v rot d lat)) = 0"
    "ez (fst (steerAndDrift st dt h v rot d lat)) = 0"
    "vy (snd (snd (steerAndDrift st dt h v rot d lat))) = 0"
  using assms
  by (simp_all add: steerAndDrift_def Let_def vy_multiplyScalar3 vy_add3 vy_applyQuaternion3
      yaw_quaternion)

lemma planar_animate:
  assumes "planar s"
  shows "planar (animate keys dt s)"
proof -
  have p: "vy (velocity s) = 0" "vy (lateralVelocity s) = 0" "vy (position s) = 0.5"
    "ex (rotation s) = 0" "ez (rotation s) = 0"
    using assms by (simp_all add: planar_def)
  have dv: "vy (drivenVelocity keys dt s) = 0"
    unfolding drivenVelocity_eq using p by (intro vy_capSpeed vy_forceAndDrag)
  have sd: "vy (snd (snd (steerAndDrift (readSteering keys) dt (frameHandbrake keys dt s)
              (drivenVelocity keys dt s) (rotation s) (driftFactor s) (lateralVelocity s)))) = 0"
    using p by (intro steerAndDrift_planar)
  have "vy (velocity (animate keys dt s)) = 0"
    unfolding velocity_animate using dv by (simp add: vy_multiplyScalar3)
  moreover have "vy (lateralVelocity (animate keys dt s)) = 0"
    unfolding lateralVelocity_animate Let_def using sd by (simp add: vy_multiplyScalar3)
  moreover have "vy (position (animate keys dt s)) = 0.5"
    unfolding position_animate using sd dv p(3)
    by (simp add: add3_def multiplyScalar3_def)
  moreover have "ex (rotation (animate keys dt s)) = 0" "ez (rotation (animate keys dt s)) = 0"
    unfolding rotation_animate using p by (simp_all add: steerAndDrift_planar)
  ultimately show ?thesis by (simp add: planar_def)
qed

lemma planar_initialVehicle: "planar initialVehicle"
  by (simp add: planar_def initialVehicle_def)

lemma planar_handleEvent: "planar (snd w) \<Longrightarrow> planar (snd (handleEvent w e))"
  by (cases w; cases e) (simp_all add: planar_animate planar_initialVehicle, simp add: planar_def)

lemma planar_foldl: "planar (snd w) \<Longrightarrow> planar (snd (foldl handleEvent w events))"
  by (induction events arbitrary: w) (simp_all add: planar_handleEvent)

text \<open>
  C10. The simulation is planar: from the initial values (position at height
  0.5, velocity and lateral velocity zero, no rotation), after any events and
  any frames with any \<open>deltaTime\<close>, the \<open>y\<close> components of \<open>velocity\<close> and
  \<open>lateralVelocity\<close> are 0, the car's height is 0.5, and the car's rotation
  about the \<open>x\<close> and \<open>z\<close> axes is 0: only yaw is ever applied.
\<close>

theorem motion_is_planar:
  "vy (velocity (snd (play events))) = 0
   \<and> vy (lateralVelocity (snd (play events))) = 0
   \<and> vy (position (snd (play events))) = 0.5
   \<and> ex (rotation (snd (play events))) = 0
   \<and> ez (rotation (snd (play events))) = 0"
proof -
  have "planar (snd (play events))"
    unfolding play_def by (rule planar_foldl) (simp add: planar_initialVehicle)
  then show ?thesis by (simp add: planar_def)
qed

theorem motion_is_planar_witness:
  "vy (velocity (snd (play [KeyDown ''KeyW'', KeyDown ''KeyA'', Frame 1, Frame (1 / 60)]))) = 0
   \<and> vy (lateralVelocity
         (snd (play [KeyDown ''KeyW'', KeyDown ''KeyA'', Frame 1, Frame (1 / 60)]))) = 0
   \<and> vy (position (snd (play [KeyDown ''KeyW'', KeyDown ''KeyA'', Frame 1, Frame (1 / 60)])))
       = 0.5"
  using motion_is_planar [of "[KeyDown ''KeyW'', KeyDown ''KeyA'', Frame 1, Frame (1 / 60)]"]
  by simp

section \<open>Coasting\<close>

lemma forceAndDrag_no_throttle: "forceAndDrag 0 force q dt v = multiplyScalar3 v 0.98"
  by (simp add: forceAndDrag_def Let_def)

lemma maxSpeedByGear_nonneg: "arrayGet maxSpeedByGear g = Some c \<Longrightarrow> 0 \<le> c"
proof -
  assume a: "arrayGet maxSpeedByGear g = Some c"
  then have "g < length maxSpeedByGear" "c = maxSpeedByGear ! g"
    by (auto simp add: arrayGet_def split: if_splits)
  then have "c \<in> set maxSpeedByGear" by simp
  then show "0 \<le> c" by (auto simp add: maxSpeedByGear_def)
qed

lemma length3_capSpeed:
  assumes "\<And>x. c = Some x \<Longrightarrow> 0 \<le> x"
  shows "length3 (capSpeed c v) \<le> length3 v"
proof (cases c)
  case None
  then show ?thesis by (simp add: capSpeed_def)
next
  case (Some x)
  then have "0 \<le> x" by (rule assms)
  then show ?thesis
    using Some by (simp add: capSpeed_def length3_capped)
qed

lemma length3_drivenVelocity_coasting:
  assumes "readAcceleration keys = 0"
  shows "length3 (drivenVelocity keys dt s) \<le> length3 (velocity s)"
proof -
  have "length3 (drivenVelocity keys dt s) \<le> length3 (multiplyScalar3 (velocity s) 0.98)"
    unfolding drivenVelocity_eq assms forceAndDrag_no_throttle
    by (rule length3_capSpeed) (rule maxSpeedByGear_nonneg)
  also have "\<dots> = 0.98 * length3 (velocity s)"
    by (simp add: length3_multiplyScalar3)
  also have "\<dots> \<le> length3 (velocity s)"
    using length3_nonneg [of "velocity s"] by simp
  finally show ?thesis .
qed

text \<open>
  C2. For every vehicle state (handbrake intensity in \<open>[0, 1]\<close>, as the data
  model has it) and every \<open>deltaTime \<ge> 0\<close>: when the frame's throttle is zero
  and its steering is zero, the velocity magnitude after the frame is at most the
  velocity magnitude before it, whatever the handbrake input.
\<close>

theorem coasting_never_speeds_up:
  assumes "0 \<le> dt"
    and "0 \<le> handbrakeIntensity s" "handbrakeIntensity s \<le> 1"
    and "readAcceleration keys = 0" "readSteering keys = 0"
  shows "length3 (velocity (animate keys dt s)) \<le> length3 (velocity s)"
proof -
  let ?h = "frameHandbrake keys dt s"
  have h: "0 \<le> ?h" "?h \<le> 1"
    unfolding frameHandbrake_eq using smoothHandbrake_range [OF assms(1-3)] by blast+
  have d: "length3 (drivenVelocity keys dt s) \<le> length3 (velocity s)"
    using assms(4) by (rule length3_drivenVelocity_coasting)
  show ?thesis
  proof (cases "0 < ?h")
    case True
    have "\<bar>0.85 + ?h * 0.1\<bar> \<le> 1" using h by simp
    then have "\<bar>0.85 + ?h * 0.1\<bar> * length3 (drivenVelocity keys dt s)
               \<le> 1 * length3 (drivenVelocity keys dt s)"
      by (intro mult_right_mono length3_nonneg)
    then show ?thesis
      using True d by (simp add: velocity_animate length3_multiplyScalar3)
  next
    case False
    then show ?thesis using d by (simp add: velocity_animate)
  qed
qed

theorem coasting_never_speeds_up_witness:
  "(0::real) \<le> 1 / 60
   \<and> 0 \<le> handbrakeIntensity (initialVehicle\<lparr>velocity := \<lparr>vx = 0, vy = 0, vz = 10\<rparr>\<rparr>)
   \<and> handbrakeIntensity (initialVehicle\<lparr>velocity := \<lparr>vx = 0, vy = 0, vz = 10\<rparr>\<rparr>) \<le> 1
   \<and> readAcceleration [''space'' \<mapsto> True] = 0
   \<and> readSteering [''space'' \<mapsto> True] = 0
   \<and> length3 (velocity (initialVehicle\<lparr>velocity := \<lparr>vx = 0, vy = 0, vz = 10\<rparr>\<rparr>)) = 10
   \<and> length3 (velocity (animate [''space'' \<mapsto> True] (1 / 60)
        (initialVehicle\<lparr>velocity := \<lparr>vx = 0, vy = 0, vz = 10\<rparr>\<rparr>))) \<le> 10"
proof -
  let ?s = "initialVehicle\<lparr>velocity := \<lparr>vx = 0, vy = 0, vz = 10\<rparr>\<rparr>"
  let ?k = "[''space'' \<mapsto> True]"
  have dt: "(0::real) \<le> 1 / 60" by simp
  have h: "0 \<le> handbrakeIntensity ?s" "handbrakeIntensity ?s \<le> 1"
    by (simp_all add: initialVehicle_def)
  have k: "readAcceleration ?k = 0" "readSteering ?k = 0"
    by (simp_all add: readAcceleration_def readSteering_def held_def Let_def)
  have l: "length3 (velocity ?s) = 10"
    by (simp add: length3_along_z)
  from coasting_never_speeds_up [OF dt h k] dt h k l show ?thesis by simp
qed

section \<open>Full throttle, straight ahead\<close>








section \<open>The run at full throttle\<close>













lemma drivenVelocity_uncapped:
  "\<not> capEngages keys dt s \<Longrightarrow> drivenVelocity keys dt s = thrustVelocity keys dt s"
  by (simp add: drivenVelocity_eq capEngages_def thrustVelocity_def capSpeed_def gtNumber_def
      split: option.splits)











end
